theory Spec2Isabelle
  imports Complex_Main
begin

section \<open>Orion GNC: the mission worker and the flight-control command handler\<close>

text \<open>
  The development embeds two functions of the repository and what they call:
  \<^item> \<^verbatim>\<open>mission-sequencer/worker.py\<close>: \<^verbatim>\<open>update_mission_status\<close> and the task
    \<^verbatim>\<open>execute_mission\<close>;
  \<^item> \<^verbatim>\<open>gnc-flight-control/main.py\<close>: \<^verbatim>\<open>execute_command\<close>.

  The worker talks to a Redis broker and sleeps; it never reads back what it wrote. Its
  effects are therefore kept as a chronological trace of events beside the key-value
  store, and what the outside world decides (which broker call fails, which message is
  pending on the abort subscription at each step) is an explicit environment.
\<close>

subsection \<open>JSON values and commands\<close>

text \<open>
  A command is the dict \<^verbatim>\<open>cmd\<close> of the flight plan. The worker reads
  \<^verbatim>\<open>cmd['command']\<close> (a \<^verbatim>\<open>KeyError\<close> when the key is absent) and
  \<^verbatim>\<open>cmd.get('delay_ms', 1000)\<close>; flight control reads \<^verbatim>\<open>"command"\<close> and
  \<^verbatim>\<open>"parameters"\<close> (default \<^verbatim>\<open>{}\<close>). The tag, when present, is a string;
  parameter and delay values are JSON numbers, booleans or null. Numbers are rationals:
  the rounding of Python floats is not modelled.
\<close>

datatype jval = JNull | JBool bool | JNum rat

record cmd =
  command :: "string option"
  parameters :: "(string \<times> jval) list"
  delay_ms :: "jval option"


subsection \<open>Python exceptions\<close>

datatype exn =
    KeyError string
  | TypeError string
  | ValueError string
  | ConnectionError string

definition squote :: "string \<Rightarrow> string" where
  "squote s = CHR 0x27 # s @ [CHR 0x27]"


text \<open>Decimal rendering of a natural number, as an f-string prints an int.\<close>

definition digit :: "nat \<Rightarrow> char" where
  "digit d = ''0123456789'' ! d"

fun str_nat :: "nat \<Rightarrow> string" where
  "str_nat n =
     (if n < 10 then [digit n]
      else str_nat (n div 10) @ [digit (n mod 10)])"

declare str_nat.simps [simp del]

subsection \<open>The broker, the trace and the environment\<close>

datatype payload =
    Snapshot string string
  | StatusMsg string string string
  | CommandMsg cmd

text \<open>
  \<^item> \<open>Snapshot status details\<close> is \<^verbatim>\<open>{"status": ..., "details": ...}\<close>;
  \<^item> \<open>StatusMsg mission_id status details\<close> is
    \<^verbatim>\<open>{"mission_id": ..., "status": ..., "details": ...}\<close>;
  \<^item> \<open>CommandMsg cmd\<close> is \<^verbatim>\<open>json.dumps(cmd)\<close>.
\<close>

datatype event =
    Set string payload
  | Publish string payload
  | Subscribe string
  | GetMessage
  | Unsubscribe
  | Close
  | Sleep rat
  | LogInfo string
  | LogError string

datatype mdata = DStr string | DInt int

record pubsub_message =
  mtype :: string
  mdata :: mdata

record world =
  store :: "string \<rightharpoonup> payload"
  trace :: "event list"
  calls :: nat

text \<open>
  \<open>calls\<close> counts the broker calls made so far. The environment says which of them
  raises a connection error (\<open>faults E n\<close> for the \<open>n\<close>-th call, counted from 0) and
  what \<^verbatim>\<open>abort_pubsub.get_message()\<close> returns at the step of index \<open>i\<close>
  (\<open>inbox E i\<close>, \<open>None\<close> when nothing is pending).
\<close>

record env =
  faults :: "nat \<Rightarrow> string option"
  inbox :: "nat \<Rightarrow> pubsub_message option"

type_synonym 'a outcome = "(exn + 'a) \<times> world"

text \<open>Sequencing: an exception skips the rest, keeping the world reached so far.\<close>

definition and_then :: "'a outcome \<Rightarrow> ('a \<Rightarrow> world \<Rightarrow> 'b outcome) \<Rightarrow> 'b outcome" where
  "and_then r f = (case r of (Inl e, w) \<Rightarrow> (Inl e, w) | (Inr x, w) \<Rightarrow> f x w)"

definition broker_call :: "env \<Rightarrow> (world \<Rightarrow> world) \<Rightarrow> world \<Rightarrow> unit outcome" where
  "broker_call E effect w =
     (case faults E (calls w) of
        Some m \<Rightarrow> (Inl (ConnectionError m), w\<lparr>calls := Suc (calls w)\<rparr>)
      | None \<Rightarrow> (Inr (), (effect w)\<lparr>calls := Suc (calls w)\<rparr>))"

definition emit :: "event \<Rightarrow> world \<Rightarrow> world" where
  "emit ev w = w\<lparr>trace := trace w @ [ev]\<rparr>"

definition redis_set :: "env \<Rightarrow> string \<Rightarrow> payload \<Rightarrow> world \<Rightarrow> unit outcome" where
  "redis_set E k v =
     broker_call E (\<lambda>w. emit (Set k v) (w\<lparr>store := (store w)(k \<mapsto> v)\<rparr>))"

definition redis_publish :: "env \<Rightarrow> string \<Rightarrow> payload \<Rightarrow> world \<Rightarrow> unit outcome" where
  "redis_publish E ch p = broker_call E (emit (Publish ch p))"





subsection \<open>worker.py\<close>

definition status_key :: "string \<Rightarrow> string" where
  "status_key mid = ''mission:'' @ mid @ '':status''"

definition update_mission_status ::
    "env \<Rightarrow> string \<Rightarrow> string \<Rightarrow> string \<Rightarrow> world \<Rightarrow> unit outcome" where
  "update_mission_status E mid status details w =
     and_then (redis_set E (status_key mid) (Snapshot status details) w) (\<lambda>_ w1.
     and_then (redis_publish E ''mission_status'' (StatusMsg mid status details) w1) (\<lambda>_ w2.
       (Inr (), emit (LogInfo (''Mission '' @ mid @ '' status updated to '' @ status
                                @ '': '' @ details)) w2)))"


text \<open>\<^verbatim>\<open>cmd.get('delay_ms', 1000) / 1000.0\<close>; a bool is an int in Python.\<close>

definition delay_of :: "cmd \<Rightarrow> exn + rat" where
  "delay_of c =
     (case delay_ms c of
        None \<Rightarrow> Inr (1000 / 1000)
      | Some JNull \<Rightarrow>
          Inl (TypeError (''unsupported operand type(s) for /: '' @ squote ''NoneType''
                          @ '' and '' @ squote ''float''))
      | Some (JBool b) \<Rightarrow> Inr ((if b then 1 else 0) / 1000)
      | Some (JNum r) \<Rightarrow> Inr (r / 1000))"

definition executing_details :: "nat \<Rightarrow> nat \<Rightarrow> string \<Rightarrow> string" where
  "executing_details i n tag =
     ''Executing command '' @ str_nat (i + 1) @ ''/'' @ str_nat n @ '': '' @ tag"






subsection \<open>gnc-flight-control/main.py\<close>












section \<open>Reading a trace\<close>


text \<open>The channels published on, in order.\<close>

fun channels :: "event list \<Rightarrow> string list" where
  "channels [] = []"
| "channels (Publish ch p # es) = ch # channels es"
| "channels (e # es) = channels es"

text \<open>The status messages published on the global channel, in order.\<close>

fun published_statuses :: "event list \<Rightarrow> (string \<times> string \<times> string) list" where
  "published_statuses [] = []"
| "published_statuses (Publish ch (StatusMsg m s d) # es) =
     (if ch = ''mission_status'' then (m, s, d) # published_statuses es
      else published_statuses es)"
| "published_statuses (e # es) = published_statuses es"






text \<open>
  Terminal statuses. A status write for a mission is a write of its snapshot key or a
  publication of its status on the global channel. A terminal status is recorded when
  the update that carries it has completed, that is, when it has been published; the
  property is that no status write for the mission comes after such a record.
\<close>

definition terminal :: "string \<Rightarrow> bool" where
  "terminal s = (s = ''COMPLETED'' \<or> s = ''FAILED'' \<or> s = ''ABORTED'')"

fun is_status_write :: "string \<Rightarrow> event \<Rightarrow> bool" where
  "is_status_write mid (Set k v) = (k = status_key mid)"
| "is_status_write mid (Publish ch (StatusMsg m s d)) = (ch = ''mission_status'' \<and> m = mid)"
| "is_status_write mid e = False"

fun is_terminal_record :: "string \<Rightarrow> event \<Rightarrow> bool" where
  "is_terminal_record mid (Publish ch (StatusMsg m s d)) =
     (ch = ''mission_status'' \<and> m = mid \<and> terminal s)"
| "is_terminal_record mid e = False"

fun quiet_after_terminal :: "string \<Rightarrow> event list \<Rightarrow> bool" where
  "quiet_after_terminal mid [] = True"
| "quiet_after_terminal mid (e # es) =
     ((is_terminal_record mid e \<longrightarrow> \<not> list_ex (is_status_write mid) es)
      \<and> quiet_after_terminal mid es)"

definition still_open :: "string \<Rightarrow> world \<Rightarrow> bool" where
  "still_open mid w = (\<not> list_ex (is_terminal_record mid) (trace w))"

definition settled :: "string \<Rightarrow> world \<Rightarrow> bool" where
  "settled mid w = quiet_after_terminal mid (trace w)"




definition tag_of :: "cmd \<Rightarrow> string" where
  "tag_of c = (case command c of None \<Rightarrow> [] | Some t \<Rightarrow> t)"

definition delay_seconds :: "cmd \<Rightarrow> rat" where
  "delay_seconds c = (case delay_of c of Inl e \<Rightarrow> 0 | Inr d \<Rightarrow> d)"

text \<open>The three events of one completed status update.\<close>

definition status_events :: "string \<Rightarrow> string \<Rightarrow> string \<Rightarrow> event list" where
  "status_events mid status details =
     [Set (status_key mid) (Snapshot status details),
      Publish ''mission_status'' (StatusMsg mid status details),
      LogInfo (''Mission '' @ mid @ '' status updated to '' @ status @ '': '' @ details)]"

text \<open>The events of one completed step, and of a run of completed steps.\<close>

definition step_events :: "string \<Rightarrow> nat \<Rightarrow> nat \<Rightarrow> cmd \<Rightarrow> event list" where
  "step_events mid n i c =
     GetMessage # status_events mid ''IN_PROGRESS'' (executing_details i n (tag_of c))
       @ [Publish ''gnc_commands'' (CommandMsg c), Sleep (delay_seconds c)]"

fun steps_events :: "string \<Rightarrow> nat \<Rightarrow> nat \<Rightarrow> cmd list \<Rightarrow> event list" where
  "steps_events mid n i [] = []"
| "steps_events mid n i (c # cs) = step_events mid n i c @ steps_events mid n (Suc i) cs"

section \<open>Basic facts\<close>

lemma and_then_Inr [simp]: "and_then (Inr x, w) f = f x w"
  by (simp add: and_then_def)

lemma and_then_Inl [simp]: "and_then (Inl e, w) f = (Inl e, w)"
  by (simp add: and_then_def)

lemma broker_call_up:
  "faults E (calls w) = None \<Longrightarrow>
   broker_call E effect w = (Inr (), (effect w)\<lparr>calls := Suc (calls w)\<rparr>)"
  by (simp add: broker_call_def)

lemma broker_call_down:
  "faults E (calls w) = Some m \<Longrightarrow>
   broker_call E effect w = (Inl (ConnectionError m), w\<lparr>calls := Suc (calls w)\<rparr>)"
  by (simp add: broker_call_def)

lemma update_mission_status_up:
  assumes "faults E (calls w) = None" and "faults E (Suc (calls w)) = None"
  shows "update_mission_status E mid status details w =
           (Inr (), w\<lparr>store := (store w)(status_key mid \<mapsto> Snapshot status details),
                      trace := trace w @ status_events mid status details,
                      calls := Suc (Suc (calls w))\<rparr>)"
  using assms
  by (simp add: update_mission_status_def redis_set_def redis_publish_def broker_call_up
      emit_def status_events_def)

lemma channels_append: "channels (xs @ ys) = channels xs @ channels ys"
  by (induction xs rule: channels.induct) simp_all










lemma published_statuses_append:
  "published_statuses (xs @ ys) = published_statuses xs @ published_statuses ys"
  by (induction xs rule: published_statuses.induct) simp_all


lemma published_statuses_status_events:
  "published_statuses (status_events mid status details) = [(mid, status, details)]"
  by (simp add: status_events_def)



lemma published_statuses_steps_events:
  "published_statuses (steps_events mid n i cs) =
     map (\<lambda>(j, c). (mid, ''IN_PROGRESS'', executing_details j n (tag_of c))) (enumerate i cs)"
  by (induction cs arbitrary: i)
     (simp_all add: step_events_def published_statuses_append published_statuses_status_events)


lemma and_then_fst_Inl: "fst r = Inl e \<Longrightarrow> and_then r f = (Inl e, snd r)"
  by (cases r) simp




subsection \<open>Suspensions follow forwarded commands, whatever the environment does\<close>












subsection \<open>Nothing is written after a terminal status, whatever the environment does\<close>








lemma still_open_calls [simp]: "still_open mid (w\<lparr>calls := n\<rparr>) = still_open mid w"
  by (simp add: still_open_def)

lemma still_open_store [simp]: "still_open mid (w\<lparr>store := m\<rparr>) = still_open mid w"
  by (simp add: still_open_def)

lemma settled_calls [simp]: "settled mid (w\<lparr>calls := n\<rparr>) = settled mid w"
  by (simp add: settled_def)













subsection \<open>A run that an abort message ends\<close>







section \<open>The claims\<close>

subsection \<open>C6: what one status update does\<close>

text \<open>
  C6, as the code has it. When the broker accepts both calls, \<open>update_mission_status\<close>
  overwrites the snapshot stored under \<^verbatim>\<open>mission:<id>:status\<close> with the status and
  the details, publishes the mission id, the status and the details once, on the global
  channel \<^verbatim>\<open>mission_status\<close>, and logs one line. It publishes on no other channel.
\<close>

theorem update_mission_status_stores_and_publishes:
  assumes "faults E (calls w) = None" and "faults E (Suc (calls w)) = None"
  shows "fst (update_mission_status E mid status details w) = Inr () \<and>
         store (snd (update_mission_status E mid status details w)) =
           (store w)(status_key mid \<mapsto> Snapshot status details) \<and>
         trace (snd (update_mission_status E mid status details w)) =
           trace w @ [Set (status_key mid) (Snapshot status details),
                      Publish ''mission_status'' (StatusMsg mid status details),
                      LogInfo (''Mission '' @ mid @ '' status updated to '' @ status
                               @ '': '' @ details)] \<and>
         channels (trace (snd (update_mission_status E mid status details w))) =
           channels (trace w) @ [''mission_status'']"
  using assms
  by (simp add: update_mission_status_up status_events_def channels_append)

theorem update_mission_status_stores_and_publishes_witness:
  "store (snd (update_mission_status
                \<lparr>faults = (\<lambda>n. None), inbox = (\<lambda>i. None)\<rparr> ''m1'' ''COMPLETED''
                ''All mission commands executed successfully.''
                \<lparr>store = Map.empty, trace = [], calls = 0\<rparr>)) (status_key ''m1'')
     = Some (Snapshot ''COMPLETED'' ''All mission commands executed successfully.'') \<and>
   trace (snd (update_mission_status
                \<lparr>faults = (\<lambda>n. None), inbox = (\<lambda>i. None)\<rparr> ''m1'' ''COMPLETED''
                ''All mission commands executed successfully.''
                \<lparr>store = Map.empty, trace = [], calls = 0\<rparr>))
     = [Set ''mission:m1:status''
          (Snapshot ''COMPLETED'' ''All mission commands executed successfully.''),
        Publish ''mission_status''
          (StatusMsg ''m1'' ''COMPLETED'' ''All mission commands executed successfully.''),
        LogInfo ''Mission m1 status updated to COMPLETED: All mission commands executed successfully.'']"
  using update_mission_status_stores_and_publishes
    [of "\<lparr>faults = (\<lambda>n. None), inbox = (\<lambda>i. None)\<rparr>"
        "\<lparr>store = Map.empty, trace = [], calls = 0\<rparr>" "''m1''" "''COMPLETED''"
        "''All mission commands executed successfully.''"]
  by (simp add: status_key_def)

text \<open>
  C6 as the specification words it fails: one update of mission \<^verbatim>\<open>m1\<close> publishes on
  exactly one channel, the global one, and on no channel of the mission's own.
\<close>

theorem update_mission_status_one_channel_counterexample:
  "channels (trace (snd (update_mission_status
                \<lparr>faults = (\<lambda>n. None), inbox = (\<lambda>i. None)\<rparr> ''m1'' ''COMPLETED''
                ''All mission commands executed successfully.''
                \<lparr>store = Map.empty, trace = [], calls = 0\<rparr>))) = [''mission_status''] \<and>
   ''mission_status:m1'' \<notin> set (channels (trace (snd (update_mission_status
                \<lparr>faults = (\<lambda>n. None), inbox = (\<lambda>i. None)\<rparr> ''m1'' ''COMPLETED''
                ''All mission commands executed successfully.''
                \<lparr>store = Map.empty, trace = [], calls = 0\<rparr>))))"
  by (simp add: update_mission_status_def redis_set_def redis_publish_def broker_call_def
      emit_def)

subsection \<open>C1: a run that nothing interrupts\<close>



subsection \<open>C10: the delay after each forwarded command\<close>



subsection \<open>C7: a terminal status is final\<close>



subsection \<open>C8: an exception inside the try block\<close>




subsection \<open>C3: the abort check before each step\<close>




subsection \<open>C5: the status published before each command\<close>




subsection \<open>C2: a command with an unrecognised tag\<close>




subsection \<open>C4: WAIT_UNTIL_APOAPSIS\<close>




end
